theory Spec2Isabelle
  imports Complex_Main "HOL-Library.Word" "HOL-Library.AList"
begin

section \<open>Values, errors and results\<close>

text \<open>
  The engine of \<^verbatim>\<open>cmd/root.go\<close> works on Go values of type \<^verbatim>\<open>interface{}\<close>.
  A template comes from \<^verbatim>\<open>json.Unmarshal\<close>, which yields \<^verbatim>\<open>nil\<close>, \<^verbatim>\<open>bool\<close>,
  \<^verbatim>\<open>float64\<close>, \<^verbatim>\<open>string\<close>, \<^verbatim>\<open>[]interface{}\<close> and \<^verbatim>\<open>map[string]interface{}\<close>;
  the directives add \<^verbatim>\<open>int\<close> and the sized integer types. Each dynamic type is a
  constructor, because \<^verbatim>\<open>convertToInt\<close> and the type switches tell them apart.

  \<^item> A finite \<^verbatim>\<open>float64\<close> is a rational number (NaN and the infinities, which JSON
    cannot denote, are not modelled).
  \<^item> Go's \<^verbatim>\<open>int\<close> is the 64-bit machine integer; arithmetic on it wraps.
  \<^item> A map is an association list. Its order is the order in which a \<^verbatim>\<open>range\<close>
    statement visits the entries, which Go leaves unspecified: a statement about a map
    has to hold for every order of the list. The keys of a Go map are distinct.
\<close>

type_synonym float64 = rat
type_synonym go_int = "64 word"

datatype json =
    JNull
  | JBool bool
  | JFloat float64
  | JInt go_int
  | JUint8 "8 word"
  | JUint16 "16 word"
  | JUint32 "32 word"
  | JInt8 "8 word"
  | JInt16 "16 word"
  | JInt32 "32 word"
  | JInt64 "64 word"
  | JString string
  | JArray "json list"
  | JObject "(string \<times> json) list"

text \<open>
  One constructor for each error the code creates; the constructors with an \<open>error\<close>
  argument are the \<^verbatim>\<open>fmt.Errorf("...: %w", err)\<close> wrappers.
\<close>

datatype error =
    FailedToResolveGenerator string error
  | FailedToResolveKey string error
  | FailedToResolveVal json error
  | KeysMustResolveToStrings
  | FailedToResolveVariable string error
  | InvalidMinOrMax
  | IntRequiresObject
  | ExpectedSlice json
  | FailedToResolveLength error
  | InvalidLen
  | MissingVal
  | ArrRequiresObject
  | ObjMustContainObjects
  | ObjRequiresObjects
  | OneofRequiresList
  | OptionRequiresParameter
  | UndefinedVariable string

text \<open>
  The process-wide random source is an explicit sequence of raw draws: the list, followed
  by zeros for ever. A call returns its value together with the rest of the sequence.
  \<open>Panic\<close> is a Go run-time panic, \<open>OutOfFuel\<close> a recursion deeper than the bound given
  to the model (a variable that refers to itself recurses without end).
\<close>

type_synonym rng = "nat list"

datatype result =
    Return json rng
  | Error error
  | Panic
  | OutOfFuel

record generator =
  prefix :: string
  vars :: "string \<rightharpoonup> json"

section \<open>Library functions\<close>

fun draw :: "rng \<Rightarrow> nat \<times> rng" where
  "draw [] = (0, [])"
| "draw (d # ds) = (d, ds)"

text \<open>\<^verbatim>\<open>rand.IntN(n)\<close>: a number in \<open>[0, n)\<close>; it panics (\<open>None\<close>) if \<open>n \<le> 0\<close>.\<close>

definition IntN :: "int \<Rightarrow> rng \<Rightarrow> (int \<times> rng) option" where
  "IntN n r = (if n \<le> 0 then None else Some (int (fst (draw r)) mod n, snd (draw r)))"

text \<open>\<^verbatim>\<open>rand.UintN(n)\<close>: a number in \<open>[0, n)\<close>; it panics if \<open>n = 0\<close>.\<close>

definition UintN :: "nat \<Rightarrow> rng \<Rightarrow> (nat \<times> rng) option" where
  "UintN n r = (if n = 0 then None else Some (fst (draw r) mod n, snd (draw r)))"

text \<open>
  \<^verbatim>\<open>rand.Uint32()\<close> is any 32-bit value; \<^verbatim>\<open>rand.Int32()\<close> and \<^verbatim>\<open>rand.Int64()\<close> are
  non-negative 31-bit and 63-bit values.
\<close>

definition Uint32 :: "rng \<Rightarrow> 32 word \<times> rng" where
  "Uint32 r = (word_of_nat (fst (draw r) mod 2 ^ 32), snd (draw r))"

definition Int32 :: "rng \<Rightarrow> 32 word \<times> rng" where
  "Int32 r = (word_of_nat (fst (draw r) mod 2 ^ 31), snd (draw r))"

definition Int64 :: "rng \<Rightarrow> 64 word \<times> rng" where
  "Int64 r = (word_of_nat (fst (draw r) mod 2 ^ 63), snd (draw r))"

definition HasPrefix :: "string \<Rightarrow> string \<Rightarrow> bool" where
  "HasPrefix s p = (take (length p) s = p)"

definition TrimPrefix :: "string \<Rightarrow> string \<Rightarrow> string" where
  "TrimPrefix s p = (if HasPrefix s p then drop (length p) s else s)"

text \<open>
  The conversion \<^verbatim>\<open>int(v)\<close> of a \<^verbatim>\<open>float64\<close> discards the fraction. Where the
  result does not fit the Go specification leaves the value to the implementation; the
  model gives what amd64 gives, the least \<^verbatim>\<open>int\<close>.
\<close>

definition truncate :: "float64 \<Rightarrow> int" where
  "truncate v = (if 0 \<le> v then \<lfloor>v\<rfloor> else \<lceil>v\<rceil>)"

definition float64_to_int :: "float64 \<Rightarrow> go_int" where
  "float64_to_int v =
     (if - (2 ^ 63) \<le> truncate v \<and> truncate v < 2 ^ 63 then word_of_int (truncate v)
      else word_of_int (- (2 ^ 63)))"

text \<open>Indexing a map: a missing key gives the zero value \<^verbatim>\<open>nil\<close>.\<close>

definition index :: "(string \<times> json) list \<Rightarrow> string \<Rightarrow> json" where
  "index m k = (case map_of m k of None \<Rightarrow> JNull | Some v \<Rightarrow> v)"

section \<open>The program\<close>

definition prefixed :: "string list" where
  "prefixed = [''int'', ''str'', ''arr'', ''obj'', ''oneof'', ''option'', ''i'', ''u8'',
     ''u16'', ''u32'', ''i8'', ''i16'', ''i32'', ''i64'', ''digit'', ''bool'', ''alpha'']"

definition isPredefinedVar :: "string \<Rightarrow> bool" where
  "isPredefinedVar v = (v \<in> set prefixed)"

definition convertToInt :: "json \<Rightarrow> go_int \<times> bool" where
  "convertToInt v =
     (case v of JFloat f \<Rightarrow> (float64_to_int f, True)
      | JInt n \<Rightarrow> (n, True)
      | _ \<Rightarrow> (0, False))"

text \<open>
  \<^verbatim>\<open>fmt.Sprint\<close> (and \<^verbatim>\<open>fmt.Sprintf("%v", _)\<close>, which prints one operand the same way)
  belongs to the Go library; it is the parameter \<open>Sprint\<close> of the model.
\<close>

definition joinAnySlice :: "(json \<Rightarrow> string) \<Rightarrow> json \<Rightarrow> error + string" where
  "joinAnySlice Sprint r =
     (case r of JArray xs \<Rightarrow> Inr (concat (map Sprint xs))
      | _ \<Rightarrow> Inl (ExpectedSlice r))"

text \<open>
  \<open>Generate\<close> and \<open>resolveVar\<close> call each other, and three loops call \<open>Generate\<close>:
  \<open>GenerateRange\<close> is the \<^verbatim>\<open>range\<close> loop over the entries of an object (with the map
  \<^verbatim>\<open>generated\<close> built so far), \<open>strLoop\<close> the loop of \<^verbatim>\<open>$str\<close> over its list (with the
  contents of the string builder), \<open>arrLoop\<close> the loop of \<^verbatim>\<open>$arr\<close> over the indices
  \<open>z\<close> (with the slice \<^verbatim>\<open>arr\<close>). Every call of \<open>Generate\<close> uses one unit of fuel.
\<close>

function Generate :: "nat \<Rightarrow> (json \<Rightarrow> string) \<Rightarrow> generator \<Rightarrow> go_int \<Rightarrow> json \<Rightarrow> rng \<Rightarrow> result"
  and GenerateRange :: "nat \<Rightarrow> (json \<Rightarrow> string) \<Rightarrow> generator \<Rightarrow> go_int \<Rightarrow>
        (string \<times> json) list \<Rightarrow> (string \<times> json) list \<Rightarrow> rng \<Rightarrow> result"
  and resolveVar :: "nat \<Rightarrow> (json \<Rightarrow> string) \<Rightarrow> generator \<Rightarrow> string \<Rightarrow> string \<Rightarrow> json \<Rightarrow>
        go_int \<Rightarrow> rng \<Rightarrow> result"
  and strLoop :: "nat \<Rightarrow> (json \<Rightarrow> string) \<Rightarrow> generator \<Rightarrow> go_int \<Rightarrow> json list \<Rightarrow> string \<Rightarrow>
        rng \<Rightarrow> result"
  and arrLoop :: "nat \<Rightarrow> (json \<Rightarrow> string) \<Rightarrow> generator \<Rightarrow> go_int \<Rightarrow> json \<Rightarrow> nat list \<Rightarrow>
        json list \<Rightarrow> rng \<Rightarrow> result"
where
  "Generate 0 Sprint g i template r = OutOfFuel"
| "Generate (Suc fuel) Sprint g i template r =
     (case template of
        JObject t \<Rightarrow> GenerateRange fuel Sprint g i t [] r
      | JString t \<Rightarrow>
          (case resolveVar fuel Sprint g (prefix g) t JNull i r of
             Error err \<Rightarrow> Error (FailedToResolveVariable t err)
           | res \<Rightarrow> res)
      | _ \<Rightarrow> Return template r)"
| "GenerateRange fuel Sprint g i [] generated r = Return (JObject generated) r"
| "GenerateRange fuel Sprint g i ((key, val) # t) generated r =
     (if isPredefinedVar (TrimPrefix key (prefix g)) then
        (case resolveVar fuel Sprint g (prefix g) key val i r of
           Error err \<Rightarrow> Error (FailedToResolveGenerator key err)
         | res \<Rightarrow> res)
      else
        (case Generate fuel Sprint g i (JString key) r of
           Error err \<Rightarrow> Error (FailedToResolveKey key err)
         | Panic \<Rightarrow> Panic
         | OutOfFuel \<Rightarrow> OutOfFuel
         | Return resolvedKey r1 \<Rightarrow>
             (case Generate fuel Sprint g i val r1 of
                Error err \<Rightarrow> Error (FailedToResolveVal val err)
              | Panic \<Rightarrow> Panic
              | OutOfFuel \<Rightarrow> OutOfFuel
              | Return resolvedVal r2 \<Rightarrow>
                  (case resolvedKey of
                     JString strKey \<Rightarrow>
                       GenerateRange fuel Sprint g i t (AList.update strKey resolvedVal generated) r2
                   | _ \<Rightarrow> Error KeysMustResolveToStrings))))"
| "resolveVar fuel Sprint g pfx variable params i r =
     (let trimmedVar = TrimPrefix variable pfx in
      if trimmedVar = ''int'' then
        (case params of
           JObject paramsMap \<Rightarrow>
             (case (convertToInt (index paramsMap ''min''), convertToInt (index paramsMap ''max'')) of
                ((mn, minOk), (mx, maxOk)) \<Rightarrow>
                  if \<not> minOk \<or> \<not> maxOk then Error InvalidMinOrMax
                  else (case IntN (sint (mx - mn + 1)) r of
                          None \<Rightarrow> Panic
                        | Some (n, r1) \<Rightarrow> Return (JInt (word_of_int n + mn)) r1))
         | _ \<Rightarrow> Error IntRequiresObject)
      else if trimmedVar = ''str'' then
        (case params of
           JArray paramsList \<Rightarrow> strLoop fuel Sprint g i paramsList [] r
         | _ \<Rightarrow>
             (case Generate fuel Sprint g i params r of
                Return res r1 \<Rightarrow>
                  (case joinAnySlice Sprint res of
                     Inl err \<Rightarrow> Error err
                   | Inr resultStr \<Rightarrow> Return (JString resultStr) r1)
              | res \<Rightarrow> res))
      else if trimmedVar = ''arr'' then
        (case params of
           JObject paramsMap \<Rightarrow>
             (case Generate fuel Sprint g i (index paramsMap ''len'') r of
                Error err \<Rightarrow> Error (FailedToResolveLength err)
              | Panic \<Rightarrow> Panic
              | OutOfFuel \<Rightarrow> OutOfFuel
              | Return resolvedLen r1 \<Rightarrow>
                  (case convertToInt resolvedLen of
                     (len, ok) \<Rightarrow>
                       if \<not> ok then Error InvalidLen
                       else (case map_of paramsMap ''val'' of
                               None \<Rightarrow> Error MissingVal
                             | Some val \<Rightarrow>
                                 if sint len < 0 then Panic
                                 else arrLoop fuel Sprint g i val [0 ..< nat (sint len)]
                                        (replicate (nat (sint len)) JNull) r1)))
         | _ \<Rightarrow> Error ArrRequiresObject)
      else if trimmedVar = ''obj'' then
        (case params of
           JArray paramsList \<Rightarrow>
             if length paramsList > 0 then
               (case IntN (int (length paramsList)) r of
                  None \<Rightarrow> Panic
                | Some (randomIndex, r1) \<Rightarrow>
                    (case paramsList ! nat randomIndex of
                       JObject selectedObj \<Rightarrow> Generate fuel Sprint g i (JObject selectedObj) r1
                     | _ \<Rightarrow> Error ObjMustContainObjects))
             else Error ObjRequiresObjects
         | _ \<Rightarrow> Error ObjRequiresObjects)
      else if trimmedVar = ''oneof'' then
        (case params of
           JArray paramsList \<Rightarrow>
             (case IntN (int (length paramsList)) r of
                None \<Rightarrow> Panic
              | Some (randomIndex, r1) \<Rightarrow> Generate fuel Sprint g i (paramsList ! nat randomIndex) r1)
         | _ \<Rightarrow> Error OneofRequiresList)
      else if trimmedVar = ''option'' then
        (if params = JNull then Error OptionRequiresParameter
         else Generate fuel Sprint g i (JObject [(''$oneof'', JArray [params])]) r)
      else if trimmedVar = ''i'' then Return (JInt i) r
      else if trimmedVar = ''u8'' then
        (case UintN 256 r of None \<Rightarrow> Panic | Some (n, r1) \<Rightarrow> Return (JUint8 (word_of_nat n)) r1)
      else if trimmedVar = ''u16'' then
        (case UintN 65536 r of None \<Rightarrow> Panic | Some (n, r1) \<Rightarrow> Return (JUint16 (word_of_nat n)) r1)
      else if trimmedVar = ''u32'' then
        (case Uint32 r of (n, r1) \<Rightarrow> Return (JUint32 n) r1)
      else if trimmedVar = ''i8'' then
        (case IntN 256 r of None \<Rightarrow> Panic | Some (n, r1) \<Rightarrow> Return (JInt8 (word_of_int (n - 128))) r1)
      else if trimmedVar = ''i16'' then
        (case IntN 65536 r of
           None \<Rightarrow> Panic
         | Some (n, r1) \<Rightarrow> Return (JInt16 (word_of_int (n - 32768))) r1)
      else if trimmedVar = ''i32'' then
        (case Int32 r of (n, r1) \<Rightarrow> Return (JInt32 n) r1)
      else if trimmedVar = ''i64'' then
        (case Int64 r of (n, r1) \<Rightarrow> Return (JInt64 n) r1)
      else if trimmedVar = ''digit'' then
        (case IntN 10 r of None \<Rightarrow> Panic | Some (n, r1) \<Rightarrow> Return (JInt (word_of_int n)) r1)
      else if trimmedVar = ''bool'' then
        (case IntN 2 r of None \<Rightarrow> Panic | Some (n, r1) \<Rightarrow> Return (JBool (n = 1)) r1)
      else if trimmedVar = ''alpha'' then
        (case IntN 2 r of
           None \<Rightarrow> Panic
         | Some (c, r1) \<Rightarrow>
             (case IntN 26 r1 of
                None \<Rightarrow> Panic
              | Some (n, r2) \<Rightarrow>
                  if c = 0 then Return (JString [char_of (97 + n)]) r2
                  else Return (JString [char_of (65 + n)]) r2))
      else if HasPrefix variable pfx then
        (case vars g (TrimPrefix variable pfx) of
           Some userdefinedVar \<Rightarrow>
             (case Generate fuel Sprint g i userdefinedVar r of
                Error err \<Rightarrow> Error (FailedToResolveVariable variable err)
              | res \<Rightarrow> res)
         | None \<Rightarrow> Error (UndefinedVariable variable))
      else Return (JString variable) r)"
| "strLoop fuel Sprint g i [] strBuilder r = Return (JString strBuilder) r"
| "strLoop fuel Sprint g i (elem # paramsList) strBuilder r =
     (case Generate fuel Sprint g i elem r of
        Return resolved r1 \<Rightarrow> strLoop fuel Sprint g i paramsList (strBuilder @ Sprint resolved) r1
      | res \<Rightarrow> res)"
| "arrLoop fuel Sprint g i val [] arr r = Return (JArray arr) r"
| "arrLoop fuel Sprint g i val (z # zs) arr r =
     (case Generate fuel Sprint g i val r of
        Return resolvedVal r1 \<Rightarrow> arrLoop fuel Sprint g i val zs (arr[z := resolvedVal]) r1
      | res \<Rightarrow> res)"
  by pat_completeness auto

termination
  by (relation "measures
        [case_sum (case_sum fst fst) (case_sum fst (case_sum fst fst)),
         case_sum (case_sum (\<lambda>_. 0) (\<lambda>_. 3)) (case_sum (\<lambda>_. 2) (case_sum (\<lambda>_. 1) (\<lambda>_. Suc 0))),
         case_sum (case_sum (\<lambda>_. 0) (\<lambda>(fuel, Sprint, g, i, t, rest). length t))
           (case_sum (\<lambda>_. 0)
             (case_sum (\<lambda>(fuel, Sprint, g, i, xs, rest). length xs)
                (\<lambda>(fuel, Sprint, g, i, val, zs, rest). length zs)))]")
     auto

declare resolveVar.simps [simp del]

text \<open>
  \<^verbatim>\<open>newGenerator\<close> parses the text of each user variable with \<^verbatim>\<open>json.Unmarshal\<close> (the
  parameter \<open>Unmarshal\<close>, \<open>None\<close> for a parse error) and keeps the raw text as a string
  when it does not parse. The field \<^verbatim>\<open>predefinedVars\<close> is \<^verbatim>\<open>nil\<close> and never read.
\<close>

definition newGenerator :: "(string \<Rightarrow> json option) \<Rightarrow> (string \<rightharpoonup> string) \<Rightarrow> generator" where
  "newGenerator Unmarshal userVars =
     \<lparr>prefix = ''$'',
      vars = (\<lambda>k. case userVars k of
                None \<Rightarrow> None
              | Some v \<Rightarrow>
                  (case Unmarshal v of
                     None \<Rightarrow> Some (JString v)
                   | Some parsedValue \<Rightarrow> Some parsedValue))\<rparr>"

section \<open>Notions of the specification\<close>

text \<open>
  The numeric value of a value that \<^verbatim>\<open>convertToInt\<close> accepts, a \<^verbatim>\<open>float64\<close> or an
  \<^verbatim>\<open>int\<close>; \<open>None\<close> for every other value, \<^verbatim>\<open>nil\<close> (a missing key) among them.
\<close>

definition number_value :: "json \<Rightarrow> rat option" where
  "number_value v =
     (case v of JFloat f \<Rightarrow> Some f
      | JInt n \<Rightarrow> Some (of_int (sint n))
      | _ \<Rightarrow> None)"

text \<open>
  What the specification says of an object without a directive key: every key and every
  value is resolved, in the order of the visit, and the object is built from the resolved
  pairs. \<open>resolve_pairs\<close> is the list of the resolved pairs, \<open>None\<close> if a resolution does
  not return or a key does not resolve to a string; \<open>object_of_pairs\<close> is the map that
  holds them, a later pair replacing an earlier one with the same key.
\<close>

fun resolve_pairs :: "nat \<Rightarrow> (json \<Rightarrow> string) \<Rightarrow> generator \<Rightarrow> go_int \<Rightarrow> (string \<times> json) list \<Rightarrow>
    rng \<Rightarrow> ((string \<times> json) list \<times> rng) option" where
  "resolve_pairs fuel Sprint g i [] r = Some ([], r)"
| "resolve_pairs fuel Sprint g i ((key, val) # t) r =
     (case Generate fuel Sprint g i (JString key) r of
        Return (JString strKey) r1 \<Rightarrow>
          (case Generate fuel Sprint g i val r1 of
             Return resolvedVal r2 \<Rightarrow>
               (case resolve_pairs fuel Sprint g i t r2 of
                  Some (ps, r3) \<Rightarrow> Some ((strKey, resolvedVal) # ps, r3)
                | None \<Rightarrow> None)
           | _ \<Rightarrow> None)
      | _ \<Rightarrow> None)"

definition object_of_pairs :: "(string \<times> json) list \<Rightarrow> string \<rightharpoonup> json" where
  "object_of_pairs ps = map_of (rev ps)"

text \<open>A value of the dynamic type \<^verbatim>\<open>map[string]interface{}\<close>.\<close>

definition is_object :: "json \<Rightarrow> bool" where
  "is_object v = (case v of JObject t \<Rightarrow> True | _ \<Rightarrow> False)"

text \<open>
  A template that holds no token: outside array literals, no string and no key of an
  object starts with the prefix or is the name of a directive. The keys of an object are
  distinct, as the keys of a Go map are.
\<close>

definition plain_string :: "generator \<Rightarrow> string \<Rightarrow> bool" where
  "plain_string g s = (\<not> HasPrefix s (prefix g) \<and> \<not> isPredefinedVar s)"

fun plain :: "generator \<Rightarrow> json \<Rightarrow> bool" where
  "plain g (JString s) = plain_string g s"
| "plain g (JObject t) =
     (distinct (map fst t) \<and> list_all (\<lambda>kv. plain_string g (fst kv) \<and> plain g (snd kv)) t)"
| "plain g v = True"

text \<open>
  Fixtures of the examples: the generator built from no user variable, the generator of
  the third scenario of the specification, and a printer (no example prints a value).
\<close>

definition emptyGenerator :: generator where
  "emptyGenerator = \<lparr>prefix = ''$'', vars = Map.empty\<rparr>"

definition aliceGenerator :: generator where
  "aliceGenerator = \<lparr>prefix = ''$'', vars = [''name'' \<mapsto> JString ''Alice'']\<rparr>"

definition SprintNil :: "json \<Rightarrow> string" where
  "SprintNil v = ''<nil>''"

section \<open>Evaluation and dispatch\<close>

lemmas eval_defs = TrimPrefix_def HasPrefix_def isPredefinedVar_def prefixed_def index_def
  convertToInt_def float64_to_int_def truncate_def IntN_def UintN_def emptyGenerator_def
  aliceGenerator_def

lemma not_predefined_neq:
  "\<not> isPredefinedVar s \<Longrightarrow>
     s \<noteq> ''int'' \<and> s \<noteq> ''str'' \<and> s \<noteq> ''arr'' \<and> s \<noteq> ''obj'' \<and> s \<noteq> ''oneof'' \<and>
     s \<noteq> ''option'' \<and> s \<noteq> ''i'' \<and> s \<noteq> ''u8'' \<and> s \<noteq> ''u16'' \<and> s \<noteq> ''u32'' \<and> s \<noteq> ''i8'' \<and>
     s \<noteq> ''i16'' \<and> s \<noteq> ''i32'' \<and> s \<noteq> ''i64'' \<and> s \<noteq> ''digit'' \<and> s \<noteq> ''bool'' \<and> s \<noteq> ''alpha''"
  unfolding isPredefinedVar_def prefixed_def by auto

text \<open>The \<^verbatim>\<open>default\<close> branch of the switch of \<open>resolveVar\<close>.\<close>

lemma resolveVar_default:
  "\<not> isPredefinedVar (TrimPrefix variable pfx) \<Longrightarrow>
   resolveVar fuel Sprint g pfx variable params i r =
     (if HasPrefix variable pfx then
        (case vars g (TrimPrefix variable pfx) of
           Some userdefinedVar \<Rightarrow>
             (case Generate fuel Sprint g i userdefinedVar r of
                Error err \<Rightarrow> Error (FailedToResolveVariable variable err)
              | res \<Rightarrow> res)
         | None \<Rightarrow> Error (UndefinedVariable variable))
      else Return (JString variable) r)"
  by (drule not_predefined_neq) (simp add: resolveVar.simps)

section \<open>Strings\<close>

text \<open>
  Claim C2. A string whose name, the prefix stripped, is no directive is returned
  unchanged when it does not start with the prefix (whether or not a variable has that
  name); when it starts with the prefix and no variable has the stripped name, the
  resolution fails with the error that names the string as an undefined variable.
\<close>

theorem string_literal_or_undefined:
  assumes "\<not> isPredefinedVar (TrimPrefix t (prefix g))"
  shows "(\<not> HasPrefix t (prefix g) \<longrightarrow>
            Generate (Suc fuel) Sprint g i (JString t) r = Return (JString t) r) \<and>
         (HasPrefix t (prefix g) \<and> vars g (TrimPrefix t (prefix g)) = None \<longrightarrow>
            Generate (Suc fuel) Sprint g i (JString t) r =
              Error (FailedToResolveVariable t (UndefinedVariable t)))"
  using assms by (simp add: resolveVar_default)

theorem string_literal_or_undefined_witness:
  "\<not> isPredefinedVar (TrimPrefix ''hello'' (prefix emptyGenerator)) \<and>
   \<not> HasPrefix ''hello'' (prefix emptyGenerator) \<and>
   Generate (Suc 0) SprintNil emptyGenerator 0 (JString ''hello'') [] = Return (JString ''hello'') [] \<and>
   \<not> isPredefinedVar (TrimPrefix ''$undefinedThing'' (prefix emptyGenerator)) \<and>
   HasPrefix ''$undefinedThing'' (prefix emptyGenerator) \<and>
   vars emptyGenerator (TrimPrefix ''$undefinedThing'' (prefix emptyGenerator)) = None \<and>
   Generate (Suc 0) SprintNil emptyGenerator 0 (JString ''$undefinedThing'') [] =
     Error (FailedToResolveVariable ''$undefinedThing'' (UndefinedVariable ''$undefinedThing''))"
proof -
  have a: "\<not> isPredefinedVar (TrimPrefix ''hello'' (prefix emptyGenerator))"
    by (simp add: eval_defs)
  have b: "\<not> HasPrefix ''hello'' (prefix emptyGenerator)"
    by (simp add: eval_defs)
  have c: "\<not> isPredefinedVar (TrimPrefix ''$undefinedThing'' (prefix emptyGenerator))"
    by (simp add: eval_defs)
  have d: "HasPrefix ''$undefinedThing'' (prefix emptyGenerator) \<and>
     vars emptyGenerator (TrimPrefix ''$undefinedThing'' (prefix emptyGenerator)) = None"
    by (simp add: eval_defs)
  show ?thesis
    using a b c d string_literal_or_undefined [OF a, of 0 SprintNil 0 "[]"]
      string_literal_or_undefined [OF c, of 0 SprintNil 0 "[]"]
    by simp
qed

section \<open>The directive \<^verbatim>\<open>int\<close>\<close>

lemma sint_word_of_int_fits:
  "- (2 ^ 63) \<le> k \<Longrightarrow> k < 2 ^ 63 \<Longrightarrow> sint (word_of_int k :: go_int) = k"
  by (simp add: sint_sbintrunc' signed_take_bit_int_eq_self)

lemma truncate_of_int: "truncate (of_int k) = k"
  by (simp add: truncate_def)

lemma convertToInt_number:
  assumes "number_value v = Some (of_int a)" and "- (2 ^ 63) \<le> a" and "a < 2 ^ 63"
  shows "convertToInt v = (word_of_int a, True)"
proof (cases v)
  case (JFloat f)
  with assms show ?thesis
    by (simp add: number_value_def convertToInt_def float64_to_int_def truncate_of_int)
next
  case (JInt n)
  with assms have "(of_int (sint n) :: rat) = of_int a" by (simp add: number_value_def)
  then have "sint n = a" by (simp only: of_int_eq_iff)
  then have "word_of_int a = n" by auto
  with JInt show ?thesis by (simp add: convertToInt_def)
qed (use assms in \<open>simp_all add: number_value_def\<close>)

lemma convertToInt_not_number:
  "number_value v = None \<Longrightarrow> convertToInt v = (0, False)"
  by (cases v) (simp_all add: number_value_def convertToInt_def)

lemma convertToInt_ok_iff: "snd (convertToInt v) \<longleftrightarrow> number_value v \<noteq> None"
  by (cases v) (simp_all add: number_value_def convertToInt_def)

lemma resolveVar_int:
  "TrimPrefix variable pfx = ''int'' \<Longrightarrow>
   resolveVar fuel Sprint g pfx variable (JObject paramsMap) i r =
     (case (convertToInt (index paramsMap ''min''), convertToInt (index paramsMap ''max'')) of
        ((mn, minOk), (mx, maxOk)) \<Rightarrow>
          if \<not> minOk \<or> \<not> maxOk then Error InvalidMinOrMax
          else (case IntN (sint (mx - mn + 1)) r of
                  None \<Rightarrow> Panic
                | Some (n, r1) \<Rightarrow> Return (JInt (word_of_int n + mn)) r1))"
  by (simp add: resolveVar.simps)

text \<open>
  Claim C3, amended. Let the parameters of \<^verbatim>\<open>int\<close> be an object whose \<^verbatim>\<open>min\<close> and
  \<^verbatim>\<open>max\<close> are numbers with the integer values \<open>a \<le> b\<close>, both 64-bit integers and
  with \<open>b - a + 1\<close> a 64-bit integer too. Then for every sequence of draws the directive
  returns an integer between \<open>a\<close> and \<open>b\<close>, and \<open>a\<close> itself when \<open>a = b\<close>. If a
  bound is missing or is not a number, the directive returns an error.
\<close>

theorem int_in_range:
  assumes "TrimPrefix variable pfx = ''int''"
  shows "(number_value (index paramsMap ''min'') = Some (of_int a) \<and>
          number_value (index paramsMap ''max'') = Some (of_int b) \<and>
          - (2 ^ 63) \<le> a \<and> a \<le> b \<and> b < 2 ^ 63 \<and> b - a < 2 ^ 63 - 1 \<longrightarrow>
            (\<exists>n r'. resolveVar fuel Sprint g pfx variable (JObject paramsMap) i r = Return (JInt n) r' \<and>
               a \<le> sint n \<and> sint n \<le> b \<and> (a = b \<longrightarrow> sint n = a))) \<and>
         (number_value (index paramsMap ''min'') = None \<or>
          number_value (index paramsMap ''max'') = None \<longrightarrow>
            resolveVar fuel Sprint g pfx variable (JObject paramsMap) i r = Error InvalidMinOrMax)"
proof (intro conjI impI)
  assume h: "number_value (index paramsMap ''min'') = Some (of_int a) \<and>
          number_value (index paramsMap ''max'') = Some (of_int b) \<and>
          - (2 ^ 63) \<le> a \<and> a \<le> b \<and> b < 2 ^ 63 \<and> b - a < 2 ^ 63 - 1"
  then have mn: "convertToInt (index paramsMap ''min'') = (word_of_int a, True)"
    and mx: "convertToInt (index paramsMap ''max'') = (word_of_int b, True)"
    by (auto intro!: convertToInt_number)
  define w where "w = b - a + 1"
  have w: "0 < w" "w < 2 ^ 63" using h by (auto simp: w_def)
  have "(word_of_int b :: go_int) - word_of_int a + 1 = word_of_int w"
    by (simp add: w_def)
  then have sw: "sint ((word_of_int b :: go_int) - word_of_int a + 1) = w"
    using w by (simp add: sint_word_of_int_fits)
  define n where "n = int (fst (draw r)) mod w"
  have n: "0 \<le> n" "n < w" using w by (simp_all add: n_def)
  have res: "resolveVar fuel Sprint g pfx variable (JObject paramsMap) i r =
      Return (JInt (word_of_int (n + a))) (snd (draw r))"
    using w by (simp add: resolveVar_int [OF assms] mn mx sw IntN_def n_def)
  have "sint (word_of_int (n + a) :: go_int) = n + a"
    using n h by (intro sint_word_of_int_fits) (auto simp: w_def)
  with res n show "\<exists>n r'. resolveVar fuel Sprint g pfx variable (JObject paramsMap) i r = Return (JInt n) r' \<and>
               a \<le> sint n \<and> sint n \<le> b \<and> (a = b \<longrightarrow> sint n = a)"
    by (auto simp: w_def)
next
  assume "number_value (index paramsMap ''min'') = None \<or>
          number_value (index paramsMap ''max'') = None"
  then show "resolveVar fuel Sprint g pfx variable (JObject paramsMap) i r = Error InvalidMinOrMax"
    by (auto simp: resolveVar_int [OF assms] convertToInt_not_number split: prod.splits)
qed

theorem int_in_range_witness:
  "TrimPrefix ''$int'' ''$'' = ''int'' \<and>
   number_value (index [(''min'', JFloat 3), (''max'', JFloat 7)] ''min'') = Some (of_int 3) \<and>
   number_value (index [(''min'', JFloat 3), (''max'', JFloat 7)] ''max'') = Some (of_int 7) \<and>
   - (2 ^ 63) \<le> (3::int) \<and> (3::int) \<le> 7 \<and> (7::int) < 2 ^ 63 \<and> (7::int) - 3 < 2 ^ 63 - 1 \<and>
   resolveVar 0 SprintNil emptyGenerator ''$'' ''$int''
     (JObject [(''min'', JFloat 3), (''max'', JFloat 7)]) 0 [9] = Return (JInt 7) [] \<and>
   number_value (index [(''max'', JFloat 7)] ''min'') = None \<and>
   resolveVar 0 SprintNil emptyGenerator ''$'' ''$int'' (JObject [(''max'', JFloat 7)]) 0 [9] =
     Error InvalidMinOrMax"
proof -
  have a: "TrimPrefix ''$int'' ''$'' = ''int''"
    by (simp add: eval_defs)
  have b: "number_value (index [(''min'', JFloat 3), (''max'', JFloat 7)] ''min'') = Some (of_int 3) \<and>
   number_value (index [(''min'', JFloat 3), (''max'', JFloat 7)] ''max'') = Some (of_int 7) \<and>
   - (2 ^ 63) \<le> (3::int) \<and> (3::int) \<le> 7 \<and> (7::int) < 2 ^ 63 \<and> (7::int) - 3 < 2 ^ 63 - 1"
    by (simp add: number_value_def eval_defs)
  have c: "number_value (index [(''max'', JFloat 7)] ''min'') = None"
    by (simp add: number_value_def eval_defs)
  have d: "resolveVar 0 SprintNil emptyGenerator ''$'' ''$int''
     (JObject [(''min'', JFloat 3), (''max'', JFloat 7)]) 0 [9] = Return (JInt 7) []"
    by (simp add: resolveVar.simps eval_defs)
  show ?thesis
    using a b c d
      int_in_range [OF a, of "[(''min'', JFloat 3), (''max'', JFloat 7)]" 3 7 0 SprintNil emptyGenerator 0 "[9]"]
      int_in_range [OF a, of "[(''max'', JFloat 7)]" 3 7 0 SprintNil emptyGenerator 0 "[9]"]
    by simp
qed

text \<open>
  Claim C3 as it is written fails for bounds that are numbers but not integers, since
  \<^verbatim>\<open>convertToInt\<close> drops the fraction: between 1.5 and 2.5 the directive may return 1.
  It fails for integer bounds whose distance is no 64-bit integer as well: \<open>max - min + 1\<close>
  wraps around to a negative number, and \<^verbatim>\<open>rand.IntN\<close> panics.
\<close>

theorem int_in_range_counterexample:
  "(3 / 2 :: rat) \<le> 5 / 2 \<and>
   Generate 2 SprintNil emptyGenerator 0
     (JObject [(''$int'', JObject [(''min'', JFloat (3 / 2)), (''max'', JFloat (5 / 2))])]) [] =
     Return (JInt 1) [] \<and>
   (of_int (sint (1 :: go_int)) :: rat) < 3 / 2 \<and>
   (- 9223372036854775808 :: rat) \<le> 4611686018427387904 \<and>
   Generate 2 SprintNil emptyGenerator 0
     (JObject [(''$int'', JObject [(''min'', JFloat (- 9223372036854775808)),
        (''max'', JFloat 4611686018427387904)])]) [] = Panic"
  by code_simp

text \<open>
  Claim C4. With integer bounds \<open>min > max\<close> the code returns no error: it passes
  \<open>max - min + 1 \<le> 0\<close> to \<^verbatim>\<open>rand.IntN\<close>, which panics.
\<close>

theorem int_inverted_bounds_panic:
  assumes "TrimPrefix variable pfx = ''int''"
    and "number_value (index paramsMap ''min'') = Some (of_int a)"
    and "number_value (index paramsMap ''max'') = Some (of_int b)"
    and "- (2 ^ 63) \<le> b" and "b < a" and "a < 2 ^ 63" and "a - b \<le> 2 ^ 63"
  shows "resolveVar fuel Sprint g pfx variable (JObject paramsMap) i r = Panic"
proof -
  have mn: "convertToInt (index paramsMap ''min'') = (word_of_int a, True)"
    and mx: "convertToInt (index paramsMap ''max'') = (word_of_int b, True)"
    using assms by (auto intro!: convertToInt_number)
  define w where "w = b - a + 1"
  have w: "w \<le> 0" "- (2 ^ 63) \<le> w" using assms by (auto simp: w_def)
  have "(word_of_int b :: go_int) - word_of_int a + 1 = word_of_int w"
    by (simp add: w_def)
  then have sw: "sint ((word_of_int b :: go_int) - word_of_int a + 1) = w"
    using w by (simp add: sint_word_of_int_fits)
  show ?thesis
    using w by (simp add: resolveVar_int [OF assms(1)] mn mx sw IntN_def)
qed

theorem int_inverted_bounds_panic_witness:
  "TrimPrefix ''$int'' ''$'' = ''int'' \<and>
   number_value (index [(''min'', JFloat 5), (''max'', JFloat 1)] ''min'') = Some (of_int 5) \<and>
   number_value (index [(''min'', JFloat 5), (''max'', JFloat 1)] ''max'') = Some (of_int 1) \<and>
   - (2 ^ 63) \<le> (1::int) \<and> (1::int) < 5 \<and> (5::int) < 2 ^ 63 \<and> (5::int) - 1 \<le> 2 ^ 63 \<and>
   resolveVar 0 SprintNil emptyGenerator ''$'' ''$int''
     (JObject [(''min'', JFloat 5), (''max'', JFloat 1)]) 0 [] = Panic"
proof -
  have a: "TrimPrefix ''$int'' ''$'' = ''int''"
    by (simp add: eval_defs)
  have b: "number_value (index [(''min'', JFloat 5), (''max'', JFloat 1)] ''min'') = Some (of_int 5)"
    and c: "number_value (index [(''min'', JFloat 5), (''max'', JFloat 1)] ''max'') = Some (of_int 1)"
    by (simp_all add: number_value_def eval_defs)
  have d: "- (2 ^ 63) \<le> (1::int)" "(1::int) < 5" "(5::int) < 2 ^ 63" "(5::int) - 1 \<le> 2 ^ 63"
    by simp_all
  show ?thesis
    using a b c d int_inverted_bounds_panic [OF a b c d, of 0 SprintNil emptyGenerator 0 "[]"]
    by simp
qed

section \<open>The directive \<^verbatim>\<open>arr\<close>\<close>

lemma convertToInt_truncate:
  assumes "number_value v = Some q" and "- (2 ^ 63) \<le> truncate q" and "truncate q < 2 ^ 63"
  shows "convertToInt v = (word_of_int (truncate q), True)"
proof (cases v)
  case (JFloat f)
  with assms show ?thesis
    by (simp add: number_value_def convertToInt_def float64_to_int_def)
next
  case (JInt n)
  with assms have "q = of_int (sint n)" by (simp add: number_value_def)
  then have "truncate q = sint n" by (simp only: truncate_of_int)
  then have "word_of_int (truncate q) = n" by simp
  with JInt show ?thesis by (simp add: convertToInt_def)
qed (use assms in \<open>simp_all add: number_value_def\<close>)

lemma resolveVar_arr:
  "TrimPrefix variable pfx = ''arr'' \<Longrightarrow>
   resolveVar fuel Sprint g pfx variable (JObject paramsMap) i r =
     (case Generate fuel Sprint g i (index paramsMap ''len'') r of
        Error err \<Rightarrow> Error (FailedToResolveLength err)
      | Panic \<Rightarrow> Panic
      | OutOfFuel \<Rightarrow> OutOfFuel
      | Return resolvedLen r1 \<Rightarrow>
          (case convertToInt resolvedLen of
             (len, ok) \<Rightarrow>
               if \<not> ok then Error InvalidLen
               else (case map_of paramsMap ''val'' of
                       None \<Rightarrow> Error MissingVal
                     | Some val \<Rightarrow>
                         if sint len < 0 then Panic
                         else arrLoop fuel Sprint g i val [0 ..< nat (sint len)]
                                (replicate (nat (sint len)) JNull) r1)))"
  by (simp add: resolveVar.simps)

lemma arrLoop_Return:
  "arrLoop fuel Sprint g i val zs arr r = Return v r' \<Longrightarrow>
   \<exists>arr'. v = JArray arr' \<and> length arr' = length arr \<and>
     (\<forall>k < length arr.
        (k \<in> set zs \<longrightarrow> (\<exists>ra rb. Generate fuel Sprint g i val ra = Return (arr' ! k) rb)) \<and>
        (k \<notin> set zs \<longrightarrow> arr' ! k = arr ! k))"
proof (induction zs arbitrary: arr r)
  case Nil
  then show ?case by auto
next
  case (Cons z zs)
  from Cons.prems obtain x r1 where x: "Generate fuel Sprint g i val r = Return x r1"
    and loop: "arrLoop fuel Sprint g i val zs (arr[z := x]) r1 = Return v r'"
    by (auto split: result.splits)
  from Cons.IH [OF loop] obtain arr' where arr': "v = JArray arr'" "length arr' = length arr"
    and elems: "\<forall>k < length arr.
        (k \<in> set zs \<longrightarrow> (\<exists>ra rb. Generate fuel Sprint g i val ra = Return (arr' ! k) rb)) \<and>
        (k \<notin> set zs \<longrightarrow> arr' ! k = arr[z := x] ! k)"
    by auto
  have "(k \<in> set (z # zs) \<longrightarrow> (\<exists>ra rb. Generate fuel Sprint g i val ra = Return (arr' ! k) rb)) \<and>
        (k \<notin> set (z # zs) \<longrightarrow> arr' ! k = arr ! k)" if k: "k < length arr" for k
  proof (cases "k \<in> set zs")
    case True
    with elems k show ?thesis by auto
  next
    case False
    with elems k have eq: "arr' ! k = arr[z := x] ! k" by auto
    show ?thesis
    proof (cases "k = z")
      case True
      with eq k have "arr' ! k = x" by simp
      with x True show ?thesis by auto
    next
      case False
      with eq \<open>k \<notin> set zs\<close> show ?thesis by simp
    qed
  qed
  with arr' show ?case by blast
qed

lemma arrLoop_not_Return:
  "arrLoop fuel Sprint g i val zs arr r = res \<Longrightarrow> \<forall>v r'. res \<noteq> Return v r' \<Longrightarrow>
   \<exists>ra. Generate fuel Sprint g i val ra = res"
proof (induction zs arbitrary: arr r)
  case Nil
  then show ?case by auto
next
  case (Cons z zs)
  show ?case
  proof (cases "Generate fuel Sprint g i val r")
    case (Return x r1)
    with Cons.prems have "arrLoop fuel Sprint g i val zs (arr[z := x]) r1 = res" by simp
    from Cons.IH [OF this Cons.prems(2)] show ?thesis .
  qed (use Cons.prems in auto)
qed

text \<open>
  Claim C5, amended. Let the parameters of \<^verbatim>\<open>arr\<close> be an object. Its \<^verbatim>\<open>len\<close> is
  resolved. If that gives a number \<open>0 \<le> q < 2 ^ 63\<close> and \<^verbatim>\<open>val\<close> is present, then
  either the directive returns an array of exactly \<open>\<lfloor>q\<rfloor>\<close> elements, each of them what
  a resolution of \<^verbatim>\<open>val\<close> returns, or a resolution of \<^verbatim>\<open>val\<close> does not return a value
  and the directive ends as that resolution does. The directive returns an error if
  \<^verbatim>\<open>len\<close> is missing or resolves to a value that is not a number, and if \<^verbatim>\<open>val\<close> is
  missing.
\<close>

theorem arr_length:
  assumes "TrimPrefix variable pfx = ''arr''"
  shows "(Generate fuel Sprint g i (index paramsMap ''len'') r = Return resolvedLen r1 \<and>
          number_value resolvedLen = Some q \<and> 0 \<le> q \<and> q < 2 ^ 63 \<and>
          map_of paramsMap ''val'' = Some val \<longrightarrow>
            (\<exists>xs r'. resolveVar fuel Sprint g pfx variable (JObject paramsMap) i r =
                 Return (JArray xs) r' \<and>
               int (length xs) = \<lfloor>q\<rfloor> \<and>
               (\<forall>k < length xs. \<exists>ra rb. Generate fuel Sprint g i val ra = Return (xs ! k) rb)) \<or>
            (\<exists>ra. Generate fuel Sprint g i val ra =
                 resolveVar fuel Sprint g pfx variable (JObject paramsMap) i r \<and>
               (\<forall>v r'. Generate fuel Sprint g i val ra \<noteq> Return v r'))) \<and>
         (Generate fuel Sprint g i (index paramsMap ''len'') r = Return resolvedLen r1 \<and>
          number_value resolvedLen = None \<longrightarrow>
            resolveVar fuel Sprint g pfx variable (JObject paramsMap) i r = Error InvalidLen) \<and>
         (map_of paramsMap ''len'' = None \<longrightarrow>
            resolveVar (Suc fuel) Sprint g pfx variable (JObject paramsMap) i r = Error InvalidLen) \<and>
         (Generate fuel Sprint g i (index paramsMap ''len'') r = Return resolvedLen r1 \<and>
          number_value resolvedLen \<noteq> None \<and> map_of paramsMap ''val'' = None \<longrightarrow>
            resolveVar fuel Sprint g pfx variable (JObject paramsMap) i r = Error MissingVal)"
proof (intro conjI impI)
  let ?res = "resolveVar fuel Sprint g pfx variable (JObject paramsMap) i r"
  assume h: "Generate fuel Sprint g i (index paramsMap ''len'') r = Return resolvedLen r1 \<and>
          number_value resolvedLen = Some q \<and> 0 \<le> q \<and> q < 2 ^ 63 \<and>
          map_of paramsMap ''val'' = Some val"
  define n where "n = \<lfloor>q\<rfloor>"
  have tq: "truncate q = n" using h by (simp add: truncate_def n_def)
  have n: "0 \<le> n" "n < 2 ^ 63" using h by (simp_all add: n_def floor_less_iff)
  then have cv: "convertToInt resolvedLen = (word_of_int n, True)"
    using h convertToInt_truncate [of resolvedLen q] tq by simp
  have sn: "sint (word_of_int n :: go_int) = n"
    using n by (intro sint_word_of_int_fits) auto
  have res: "?res = arrLoop fuel Sprint g i val [0 ..< nat n] (replicate (nat n) JNull) r1"
    using h n by (simp add: resolveVar_arr [OF assms] cv sn)
  show "(\<exists>xs r'. ?res = Return (JArray xs) r' \<and> int (length xs) = \<lfloor>q\<rfloor> \<and>
               (\<forall>k < length xs. \<exists>ra rb. Generate fuel Sprint g i val ra = Return (xs ! k) rb)) \<or>
            (\<exists>ra. Generate fuel Sprint g i val ra = ?res \<and>
               (\<forall>v r'. Generate fuel Sprint g i val ra \<noteq> Return v r'))"
  proof (cases "\<exists>v r'. ?res = Return v r'")
    case True
    then obtain v r' where v: "?res = Return v r'" by blast
    from arrLoop_Return [OF v [unfolded res]] obtain xs where xs: "v = JArray xs"
      "length xs = nat n"
      "\<forall>k < nat n. \<exists>ra rb. Generate fuel Sprint g i val ra = Return (xs ! k) rb"
      by auto
    with v n show ?thesis by (auto simp: n_def)
  next
    case False
    then have "\<forall>v r'. ?res \<noteq> Return v r'" by simp
    from arrLoop_not_Return [OF res [symmetric] this] obtain ra
      where "Generate fuel Sprint g i val ra = ?res" by blast
    with False show ?thesis by metis
  qed
next
  assume "Generate fuel Sprint g i (index paramsMap ''len'') r = Return resolvedLen r1 \<and>
          number_value resolvedLen = None"
  then show "resolveVar fuel Sprint g pfx variable (JObject paramsMap) i r = Error InvalidLen"
    by (simp add: resolveVar_arr [OF assms] convertToInt_not_number)
next
  assume "map_of paramsMap ''len'' = None"
  then show "resolveVar (Suc fuel) Sprint g pfx variable (JObject paramsMap) i r = Error InvalidLen"
    by (simp add: resolveVar_arr [OF assms] index_def convertToInt_def)
next
  assume h: "Generate fuel Sprint g i (index paramsMap ''len'') r = Return resolvedLen r1 \<and>
          number_value resolvedLen \<noteq> None \<and> map_of paramsMap ''val'' = None"
  then have "snd (convertToInt resolvedLen)" by (simp add: convertToInt_ok_iff)
  then obtain len where "convertToInt resolvedLen = (len, True)"
    by (cases "convertToInt resolvedLen") auto
  with h show "resolveVar fuel Sprint g pfx variable (JObject paramsMap) i r = Error MissingVal"
    by (simp add: resolveVar_arr [OF assms])
qed


theorem arr_length_witness:
  "TrimPrefix ''$arr'' ''$'' = ''arr'' \<and>
   Generate 2 SprintNil emptyGenerator 0
     (index [(''len'', JFloat 3), (''val'', JObject [(''$oneof'', JArray [JFloat 1, JFloat 2, JFloat 3])])]
        ''len'') [4, 5, 6] = Return (JFloat 3) [4, 5, 6] \<and>
   number_value (JFloat 3) = Some 3 \<and> (0::rat) \<le> 3 \<and> (3::rat) < 2 ^ 63 \<and>
   map_of [(''len'', JFloat 3), (''val'', JObject [(''$oneof'', JArray [JFloat 1, JFloat 2, JFloat 3])])]
     ''val'' = Some (JObject [(''$oneof'', JArray [JFloat 1, JFloat 2, JFloat 3])]) \<and>
   resolveVar 2 SprintNil emptyGenerator ''$'' ''$arr''
     (JObject [(''len'', JFloat 3), (''val'', JObject [(''$oneof'', JArray [JFloat 1, JFloat 2, JFloat 3])])])
     0 [4, 5, 6] = Return (JArray [JFloat 2, JFloat 3, JFloat 1]) [] \<and>
   map_of [(''val'', JFloat 7)] ''len'' = None \<and>
   resolveVar (Suc 0) SprintNil emptyGenerator ''$'' ''$arr'' (JObject [(''val'', JFloat 7)]) 0 [] =
     Error InvalidLen"
proof -
  have a: "TrimPrefix ''$arr'' ''$'' = ''arr''"
    by (simp add: eval_defs)
  have b: "Generate 2 SprintNil emptyGenerator 0
     (index [(''len'', JFloat 3), (''val'', JObject [(''$oneof'', JArray [JFloat 1, JFloat 2, JFloat 3])])]
        ''len'') [4, 5, 6] = Return (JFloat 3) [4, 5, 6]"
    by code_simp
  have c: "number_value (JFloat 3) = Some 3 \<and> (0::rat) \<le> 3 \<and> (3::rat) < 2 ^ 63"
    by (simp add: number_value_def)
  have d: "map_of [(''len'', JFloat 3), (''val'', JObject [(''$oneof'', JArray [JFloat 1, JFloat 2, JFloat 3])])]
     ''val'' = Some (JObject [(''$oneof'', JArray [JFloat 1, JFloat 2, JFloat 3])])"
    by simp
  have e: "resolveVar 2 SprintNil emptyGenerator ''$'' ''$arr''
     (JObject [(''len'', JFloat 3), (''val'', JObject [(''$oneof'', JArray [JFloat 1, JFloat 2, JFloat 3])])])
     0 [4, 5, 6] = Return (JArray [JFloat 2, JFloat 3, JFloat 1]) []"
    by code_simp
  have f: "map_of [(''val'', JFloat 7)] ''len'' = None"
    by simp
  show ?thesis
    using a b c d e f
      arr_length [OF a, of 2 SprintNil emptyGenerator 0
        "[(''len'', JFloat 3), (''val'', JObject [(''$oneof'', JArray [JFloat 1, JFloat 2, JFloat 3])])]"
        "[4, 5, 6]" "JFloat 3" "[4, 5, 6]" 3 "JObject [(''$oneof'', JArray [JFloat 1, JFloat 2, JFloat 3])]"]
      arr_length [OF a, of 0 SprintNil emptyGenerator 0 "[(''val'', JFloat 7)]" "[]" JNull "[]" 0 JNull]
    by simp
qed

text \<open>
  Claim C5 as it is written fails: a \<^verbatim>\<open>len\<close> that is a number but no integer is not an
  error, the fraction is dropped; and a negative \<^verbatim>\<open>len\<close> gives neither an array nor an
  error, \<^verbatim>\<open>make\<close> panics.
\<close>

theorem arr_length_counterexample:
  "(of_int \<lfloor>5 / 2 :: rat\<rfloor> :: rat) \<noteq> 5 / 2 \<and>
   Generate 3 SprintNil emptyGenerator 0
     (JObject [(''$arr'', JObject [(''len'', JFloat (5 / 2)), (''val'', JFloat 7)])]) [] =
     Return (JArray [JFloat 7, JFloat 7]) [] \<and>
   Generate 3 SprintNil emptyGenerator 0
     (JObject [(''$arr'', JObject [(''len'', JFloat (- 1)), (''val'', JFloat 7)])]) [] = Panic"
  by code_simp

section \<open>Literals\<close>

text \<open>
  Claim C8. An array, a number, a boolean and \<^verbatim>\<open>nil\<close> are returned as they are, for
  every iteration index and with the random source untouched. The elements of the array
  are arbitrary: a directive among them is not resolved.
\<close>

theorem Generate_literal_unchanged:
  "Generate (Suc fuel) Sprint g i (JArray xs) r = Return (JArray xs) r \<and>
   Generate (Suc fuel) Sprint g i (JFloat f) r = Return (JFloat f) r \<and>
   Generate (Suc fuel) Sprint g i (JInt n) r = Return (JInt n) r \<and>
   Generate (Suc fuel) Sprint g i (JBool b) r = Return (JBool b) r \<and>
   Generate (Suc fuel) Sprint g i JNull r = Return JNull r"
  by simp

section \<open>The directives \<^verbatim>\<open>oneof\<close>, \<^verbatim>\<open>obj\<close> and \<^verbatim>\<open>option\<close>\<close>

text \<open>
  Claim C10. With an empty list \<^verbatim>\<open>oneof\<close> asks \<^verbatim>\<open>rand.IntN\<close> for a number below zero
  elements, which panics: the resolution returns neither a value nor an error. The
  directive \<^verbatim>\<open>obj\<close> tests the length first and returns an error.
\<close>

theorem oneof_empty_panics:
  assumes "TrimPrefix variable pfx = ''oneof''" and "TrimPrefix variable' pfx = ''obj''"
  shows "resolveVar fuel Sprint g pfx variable (JArray []) i r = Panic \<and>
         resolveVar fuel Sprint g pfx variable' (JArray []) i r = Error ObjRequiresObjects"
  using assms by (simp add: resolveVar.simps IntN_def)

theorem oneof_empty_panics_witness:
  "TrimPrefix ''$oneof'' ''$'' = ''oneof'' \<and> TrimPrefix ''$obj'' ''$'' = ''obj'' \<and>
   resolveVar 0 SprintNil emptyGenerator ''$'' ''$oneof'' (JArray []) 0 [] = Panic \<and>
   resolveVar 0 SprintNil emptyGenerator ''$'' ''$obj'' (JArray []) 0 [] = Error ObjRequiresObjects"
proof -
  have a: "TrimPrefix ''$oneof'' ''$'' = ''oneof''" and b: "TrimPrefix ''$obj'' ''$'' = ''obj''"
    by (simp_all add: TrimPrefix_def HasPrefix_def)
  show ?thesis
    using a b oneof_empty_panics [OF a b, of 0 SprintNil emptyGenerator 0 "[]"] by simp
qed

lemma IntN_bounds:
  "0 < n \<Longrightarrow> \<exists>k. IntN n r = Some (k, snd (draw r)) \<and> 0 \<le> k \<and> k < n"
  by (simp add: IntN_def)

lemma resolveVar_oneof:
  "TrimPrefix variable pfx = ''oneof'' \<Longrightarrow>
   resolveVar fuel Sprint g pfx variable (JArray paramsList) i r =
     (case IntN (int (length paramsList)) r of
        None \<Rightarrow> Panic
      | Some (randomIndex, r1) \<Rightarrow> Generate fuel Sprint g i (paramsList ! nat randomIndex) r1)"
  by (simp add: resolveVar.simps)

lemma resolveVar_obj:
  "TrimPrefix variable pfx = ''obj'' \<Longrightarrow>
   resolveVar fuel Sprint g pfx variable (JArray paramsList) i r =
     (if length paramsList > 0 then
        (case IntN (int (length paramsList)) r of
           None \<Rightarrow> Panic
         | Some (randomIndex, r1) \<Rightarrow>
             (case paramsList ! nat randomIndex of
                JObject selectedObj \<Rightarrow> Generate fuel Sprint g i (JObject selectedObj) r1
              | _ \<Rightarrow> Error ObjMustContainObjects))
      else Error ObjRequiresObjects)"
  by (simp add: resolveVar.simps)

text \<open>
  Claim C6. With a list of \<open>k \<ge> 1\<close> elements, \<^verbatim>\<open>oneof\<close> returns what the resolution of
  one of the \<open>k\<close> elements returns (after the draw of the index), and with one element
  the resolution of that element. So does \<^verbatim>\<open>obj\<close> when the element drawn is an object;
  when it is not, and when the list is empty, \<^verbatim>\<open>obj\<close> returns an error.
\<close>

theorem oneof_obj_select:
  shows "(TrimPrefix variable pfx = ''oneof'' \<and> paramsList \<noteq> [] \<longrightarrow>
            (\<exists>k < length paramsList.
               resolveVar fuel Sprint g pfx variable (JArray paramsList) i r =
                 Generate fuel Sprint g i (paramsList ! k) (snd (draw r)))) \<and>
         (TrimPrefix variable pfx = ''oneof'' \<longrightarrow>
            resolveVar fuel Sprint g pfx variable (JArray [v]) i r =
              Generate fuel Sprint g i v (snd (draw r))) \<and>
         (TrimPrefix variable pfx = ''obj'' \<and> paramsList \<noteq> [] \<longrightarrow>
            (\<exists>k < length paramsList.
               resolveVar fuel Sprint g pfx variable (JArray paramsList) i r =
                 (if is_object (paramsList ! k)
                  then Generate fuel Sprint g i (paramsList ! k) (snd (draw r))
                  else Error ObjMustContainObjects))) \<and>
         (TrimPrefix variable pfx = ''obj'' \<longrightarrow>
            resolveVar fuel Sprint g pfx variable (JArray [v]) i r =
              (if is_object v then Generate fuel Sprint g i v (snd (draw r))
               else Error ObjMustContainObjects)) \<and>
         (TrimPrefix variable pfx = ''obj'' \<longrightarrow>
            resolveVar fuel Sprint g pfx variable (JArray []) i r = Error ObjRequiresObjects)"
proof (intro conjI impI)
  assume h: "TrimPrefix variable pfx = ''oneof'' \<and> paramsList \<noteq> []"
  then obtain k where k: "IntN (int (length paramsList)) r = Some (k, snd (draw r))"
    "0 \<le> k" "k < int (length paramsList)"
    using IntN_bounds [of "int (length paramsList)" r] by auto
  then have "nat k < length paramsList" by simp
  moreover have "resolveVar fuel Sprint g pfx variable (JArray paramsList) i r =
      Generate fuel Sprint g i (paramsList ! nat k) (snd (draw r))"
    using h k by (simp add: resolveVar_oneof)
  ultimately show "\<exists>k < length paramsList.
      resolveVar fuel Sprint g pfx variable (JArray paramsList) i r =
        Generate fuel Sprint g i (paramsList ! k) (snd (draw r))"
    by blast
next
  assume "TrimPrefix variable pfx = ''oneof''"
  then show "resolveVar fuel Sprint g pfx variable (JArray [v]) i r =
      Generate fuel Sprint g i v (snd (draw r))"
    by (simp add: resolveVar_oneof IntN_def)
next
  assume h: "TrimPrefix variable pfx = ''obj'' \<and> paramsList \<noteq> []"
  then obtain k where k: "IntN (int (length paramsList)) r = Some (k, snd (draw r))"
    "0 \<le> k" "k < int (length paramsList)"
    using IntN_bounds [of "int (length paramsList)" r] by auto
  then have "nat k < length paramsList" by simp
  moreover have "resolveVar fuel Sprint g pfx variable (JArray paramsList) i r =
      (if is_object (paramsList ! nat k)
       then Generate fuel Sprint g i (paramsList ! nat k) (snd (draw r))
       else Error ObjMustContainObjects)"
    using h k by (simp add: resolveVar_obj is_object_def split: json.splits)
  ultimately show "\<exists>k < length paramsList.
      resolveVar fuel Sprint g pfx variable (JArray paramsList) i r =
        (if is_object (paramsList ! k)
         then Generate fuel Sprint g i (paramsList ! k) (snd (draw r))
         else Error ObjMustContainObjects)"
    by blast
next
  assume "TrimPrefix variable pfx = ''obj''"
  then show "resolveVar fuel Sprint g pfx variable (JArray [v]) i r =
      (if is_object v then Generate fuel Sprint g i v (snd (draw r))
       else Error ObjMustContainObjects)"
    by (simp add: resolveVar_obj IntN_def is_object_def split: json.splits)
next
  assume "TrimPrefix variable pfx = ''obj''"
  then show "resolveVar fuel Sprint g pfx variable (JArray []) i r = Error ObjRequiresObjects"
    by (simp add: resolveVar_obj)
qed

theorem oneof_obj_select_witness:
  "TrimPrefix ''$oneof'' ''$'' = ''oneof'' \<and> [JFloat 1, JString ''$i'', JFloat 3] \<noteq> [] \<and>
   resolveVar 1 SprintNil emptyGenerator ''$'' ''$oneof''
     (JArray [JFloat 1, JString ''$i'', JFloat 3]) 5 [4] = Return (JInt 5) [] \<and>
   Generate 1 SprintNil emptyGenerator 5 ([JFloat 1, JString ''$i'', JFloat 3] ! 1) (snd (draw [4])) =
     Return (JInt 5) [] \<and>
   TrimPrefix ''$obj'' ''$'' = ''obj'' \<and> [JObject [(''a'', JString ''$i'')], JFloat 3] \<noteq> [] \<and>
   resolveVar 2 SprintNil emptyGenerator ''$'' ''$obj''
     (JArray [JObject [(''a'', JString ''$i'')], JFloat 3]) 5 [4] =
     Return (JObject [(''a'', JInt 5)]) [] \<and>
   resolveVar 2 SprintNil emptyGenerator ''$'' ''$obj''
     (JArray [JObject [(''a'', JString ''$i'')], JFloat 3]) 5 [7] = Error ObjMustContainObjects \<and>
   resolveVar 2 SprintNil emptyGenerator ''$'' ''$obj'' (JArray []) 5 [7] = Error ObjRequiresObjects"
proof -
  have a: "TrimPrefix ''$oneof'' ''$'' = ''oneof'' \<and> [JFloat 1, JString ''$i'', JFloat 3] \<noteq> []"
    by (simp add: eval_defs)
  have b: "TrimPrefix ''$obj'' ''$'' = ''obj'' \<and> [JObject [(''a'', JString ''$i'')], JFloat 3] \<noteq> []"
    by (simp add: eval_defs)
  have c: "resolveVar 1 SprintNil emptyGenerator ''$'' ''$oneof''
     (JArray [JFloat 1, JString ''$i'', JFloat 3]) 5 [4] = Return (JInt 5) []"
    "Generate 1 SprintNil emptyGenerator 5 ([JFloat 1, JString ''$i'', JFloat 3] ! 1) (snd (draw [4])) =
     Return (JInt 5) []"
    "resolveVar 2 SprintNil emptyGenerator ''$'' ''$obj''
     (JArray [JObject [(''a'', JString ''$i'')], JFloat 3]) 5 [4] =
     Return (JObject [(''a'', JInt 5)]) []"
    "resolveVar 2 SprintNil emptyGenerator ''$'' ''$obj''
     (JArray [JObject [(''a'', JString ''$i'')], JFloat 3]) 5 [7] = Error ObjMustContainObjects"
    by code_simp+
  show ?thesis
    using a b c
      oneof_obj_select [of "''$oneof''" "''$''" "[JFloat 1, JString ''$i'', JFloat 3]" 1
        SprintNil emptyGenerator 5 "[4]" JNull]
      oneof_obj_select [of "''$obj''" "''$''" "[JObject [(''a'', JString ''$i'')], JFloat 3]" 2
        SprintNil emptyGenerator 5 "[7]" JNull]
    by simp
qed

lemma resolveVar_option:
  "TrimPrefix variable pfx = ''option'' \<Longrightarrow>
   resolveVar fuel Sprint g pfx variable params i r =
     (if params = JNull then Error OptionRequiresParameter
      else Generate fuel Sprint g i (JObject [(''$oneof'', JArray [params])]) r)"
  by (simp add: resolveVar.simps)

lemma dollar_oneof: "TrimPrefix ''$oneof'' ''$'' = ''oneof''" "isPredefinedVar ''oneof''"
  by (simp_all add: eval_defs)

text \<open>
  Claim C7. The prefix being \<^verbatim>\<open>$\<close>, as \<^verbatim>\<open>newGenerator\<close> sets it, \<^verbatim>\<open>option\<close> with a
  parameter \<open>v\<close> other than \<^verbatim>\<open>nil\<close> returns what the resolution of the object
  \<^verbatim>\<open>{"$oneof": [v]}\<close> returns, for every iteration index and every sequence of draws;
  and that is what the resolution of \<open>v\<close> returns after one draw, an error of it wrapped
  as the failure of the generator \<^verbatim>\<open>$oneof\<close>.
\<close>

theorem option_is_oneof:
  assumes "prefix g = ''$''" and "TrimPrefix variable pfx = ''option''" and "v \<noteq> JNull"
  shows "resolveVar fuel Sprint g pfx variable v i r =
           Generate fuel Sprint g i (JObject [(''$oneof'', JArray [v])]) r \<and>
         Generate (Suc fuel) Sprint g i (JObject [(''$oneof'', JArray [v])]) r =
           (case Generate fuel Sprint g i v (snd (draw r)) of
              Error err \<Rightarrow> Error (FailedToResolveGenerator ''$oneof'' err)
            | res \<Rightarrow> res)"
  using assms by (simp add: resolveVar_option dollar_oneof resolveVar_oneof IntN_def)

theorem option_is_oneof_witness:
  "prefix emptyGenerator = ''$'' \<and> TrimPrefix ''$option'' ''$'' = ''option'' \<and> JString ''$i'' \<noteq> JNull \<and>
   resolveVar 2 SprintNil emptyGenerator ''$'' ''$option'' (JString ''$i'') 5 [7] = Return (JInt 5) [] \<and>
   Generate 2 SprintNil emptyGenerator 5 (JObject [(''$oneof'', JArray [JString ''$i''])]) [7] =
     Return (JInt 5) []"
proof -
  have a: "prefix emptyGenerator = ''$''" and b: "TrimPrefix ''$option'' ''$'' = ''option''"
    and c: "JString ''$i'' \<noteq> JNull"
    by (simp_all add: eval_defs)
  have d: "Generate 2 SprintNil emptyGenerator 5 (JObject [(''$oneof'', JArray [JString ''$i''])]) [7] =
     Return (JInt 5) []"
    by code_simp
  show ?thesis
    using a b c d option_is_oneof [OF a b c, of 2 SprintNil 5 "[7]"] by simp
qed

end
